theory Spec2Isabelle
  imports Complex_Main "HOL-Library.Sublist"
begin

section \<open>webhook-push: platform registry, configuration, progress templates, dispatch\<close>

text \<open>
  A shallow embedding of \<^verbatim>\<open>webhook-push/index.js\<close>.

  Strings of the program are modelled as \<^typ>\<open>string\<close>, holding the UTF-8 bytes of the
  JavaScript string (the emoji of the style table are written as their bytes).
  A value that may be \<^verbatim>\<open>undefined\<close> is a \<^typ>\<open>string option\<close> with \<^term>\<open>None\<close> for
  \<^verbatim>\<open>undefined\<close>. A thrown \<^verbatim>\<open>Error\<close> and a rejected promise are the left injection
  of a sum, a returned value and a resolved promise the right one.
\<close>

subsection \<open>Values of the host language\<close>

datatype json =
    JNull
  | JBool bool
  | JNumber real
  | JString string
  | JArray "json list"
  | JObject "(string \<times> json) list"

text \<open>
  \<^verbatim>\<open>new Error(message)\<close> is \<open>Error message\<close>. \<open>HostError\<close> stands for what the
  runtime itself raises (a \<^verbatim>\<open>TypeError\<close> of \<^verbatim>\<open>new URL\<close>, the \<^verbatim>\<open>'error'\<close> event of
  a request); the program passes those on unchanged.
\<close>

datatype error = Error string | HostError string

text \<open>What a request ends with: the \<^verbatim>\<open>'error'\<close> event, or \<^verbatim>\<open>'end'\<close> of a response
  with its status code and the concatenation of its chunks.\<close>

datatype outcome = Failed error | Response nat string

text \<open>JavaScript truthiness of a value that is a string or \<^verbatim>\<open>undefined\<close>: only
  \<^verbatim>\<open>undefined\<close> and the empty string are falsy.\<close>

fun truthy :: "string option \<Rightarrow> bool" where
  "truthy None = False"
| "truthy (Some s) = (s \<noteq> [])"

text \<open>\<^verbatim>\<open>a || b\<close> on such values.\<close>

definition or_else :: "string option \<Rightarrow> string \<Rightarrow> string" where
  "or_else a b = (case a of None \<Rightarrow> b | Some s \<Rightarrow> if s = [] then b else s)"

text \<open>\<^verbatim>\<open>${v}\<close> inside a template literal, for a string or \<^verbatim>\<open>undefined\<close>.\<close>

definition interpolate :: "string option \<Rightarrow> string" where
  "interpolate v = (case v of None \<Rightarrow> ''undefined'' | Some s \<Rightarrow> s)"

text \<open>\<^verbatim>\<open>${n}\<close> for a non-negative integer: its decimal digits.\<close>

fun decimal :: "nat \<Rightarrow> string" where
  "decimal n =
     (if n < 10 then [char_of (48 + n)]
      else decimal (n div 10) @ [char_of (48 + n mod 10)])"

declare decimal.simps [simp del]

text \<open>\<^verbatim>\<open>xs.join(sep)\<close> on an array of strings.\<close>

fun join :: "string \<Rightarrow> string list \<Rightarrow> string" where
  "join sep [] = []"
| "join sep [x] = x"
| "join sep (x # y # ys) = x @ sep @ join sep (y # ys)"

subsection \<open>Property lookup on an object literal\<close>

text \<open>
  The tables of the program are object literals, and \<^verbatim>\<open>table[name]\<close> is an ordinary
  property read: it finds the table's own entry, and for a name the table does not
  have it goes on to \<^verbatim>\<open>Object.prototype\<close>, whose twelve members are all truthy.
  \<open>Object_prototype\<close> lists them with the string each one converts to (the program
  only ever converts them to a string, reads a property of them, or calls them);
  the texts are those of Node.js.
\<close>

definition native :: "string \<Rightarrow> string" where
  "native name = ''function '' @ name @ ''() { [native code] }''"

definition Object_prototype :: "(string \<times> string) list" where
  "Object_prototype =
     [(''constructor'', native ''Object''),
      (''__defineGetter__'', native ''__defineGetter__''),
      (''__defineSetter__'', native ''__defineSetter__''),
      (''hasOwnProperty'', native ''hasOwnProperty''),
      (''__lookupGetter__'', native ''__lookupGetter__''),
      (''__lookupSetter__'', native ''__lookupSetter__''),
      (''isPrototypeOf'', native ''isPrototypeOf''),
      (''propertyIsEnumerable'', native ''propertyIsEnumerable''),
      (''toString'', native ''toString''),
      (''valueOf'', native ''valueOf''),
      (''__proto__'', ''[object Object]''),
      (''toLocaleString'', native ''toLocaleString'')]"

datatype 'a property = Undefined | Own 'a | Inherited string

definition get_property :: "(string \<times> 'a) list \<Rightarrow> string \<Rightarrow> 'a property" where
  "get_property obj name =
     (case map_of obj name of
        Some v \<Rightarrow> Own v
      | None \<Rightarrow>
          (case map_of Object_prototype name of
             Some s \<Rightarrow> Inherited s
           | None \<Rightarrow> Undefined))"

text \<open>\<^verbatim>\<open>Object.values(obj)\<close>: the own values in insertion order (no key of the
  tables below is an array index).\<close>

definition Object_values :: "(string \<times> 'a) list \<Rightarrow> 'a list" where
  "Object_values obj = map snd obj"

subsection \<open>Platform configuration\<close>

definition PLATFORMS :: "(string \<times> string) list" where
  "PLATFORMS =
     [(''WECOM'', ''wecom''),
      (''DINGTALK'', ''dingtalk''),
      (''FEISHU'', ''feishu''),
      (''SLACK'', ''slack''),
      (''TELEGRAM'', ''telegram'')]"

definition ENV_KEYS :: "(string \<times> string) list" where
  "ENV_KEYS =
     [(''wecom'', ''WEBHOOK_WECOM_KEY''),
      (''dingtalk'', ''WEBHOOK_DINGTALK_TOKEN''),
      (''feishu'', ''WEBHOOK_FEISHU_TOKEN''),
      (''slack'', ''WEBHOOK_SLACK_URL''),
      (''telegram'', ''WEBHOOK_TELEGRAM_TOKEN'')]"

definition ENV_EXTRAS :: "(string \<times> string) list" where
  "ENV_EXTRAS = [(''telegram'', ''WEBHOOK_TELEGRAM_CHAT_ID'')]"

definition DEFAULT_PLATFORM :: string where
  "DEFAULT_PLATFORM = ''wecom''"

subsection \<open>The host\<close>

text \<open>
  What the program reads from its surroundings and the built-in functions it calls,
  as one record: the environment variables (\<^verbatim>\<open>process.env\<close>),
  \<^verbatim>\<open>String.prototype.toUpperCase\<close>, the text of \<^verbatim>\<open>new Date().toISOString()\<close> at the
  moment of the call, \<^verbatim>\<open>JSON.parse\<close> (\<^term>\<open>None\<close> when it throws), and the network:
  \<open>request h url data\<close> is how the POST of \<^verbatim>\<open>data\<close> to \<^verbatim>\<open>url\<close> ends.
  \<open>inherited_call\<close> is what the runtime makes of a \<^verbatim>\<open>push\<close> whose URL builder and
  formatter are members of \<^verbatim>\<open>Object.prototype\<close> instead of functions of this file.
\<close>

text \<open>The fields carry a prefix, as a record field is a constant: \<open>c_key\<close> is
  \<^verbatim>\<open>config.key\<close>, \<open>o_title\<close> is \<^verbatim>\<open>options.title\<close>.\<close>

record config =
  c_key :: string
  c_extra :: "string option"

record options =
  o_platform :: "string option"
  o_title :: "string option"
  o_color :: "string option"

record host =
  process_env :: "string \<Rightarrow> string option"
  toUpperCase :: "string \<Rightarrow> string"
  toISOString :: string
  JSON_parse :: "string \<Rightarrow> json option"
  request :: "string \<Rightarrow> json \<Rightarrow> outcome"
  inherited_call :: "string \<Rightarrow> config \<Rightarrow> string \<Rightarrow> options \<Rightarrow> error + json"

subsection \<open>Configuration validation\<close>

text \<open>The name an entry of \<open>ENV_KEYS\<close> or \<open>ENV_EXTRAS\<close> is used under, as a property
  key of \<^verbatim>\<open>process.env\<close> and inside the messages; \<^term>\<open>None\<close> when the entry is
  \<^verbatim>\<open>undefined\<close>.\<close>

definition env_name :: "string property \<Rightarrow> string option" where
  "env_name p = (case p of Undefined \<Rightarrow> None | Own s \<Rightarrow> Some s | Inherited s \<Rightarrow> Some s)"

definition unknown_platform :: "string \<Rightarrow> string" where
  "unknown_platform platform =
     ''Unknown platform: '' @ platform @ ''. Supported platforms: '' @
       join '', '' (Object_values PLATFORMS)"

definition missing_key :: "string \<Rightarrow> string" where
  "missing_key envKey =
     ''Missing environment variable: '' @ envKey @ ''\<newline>'' @
     ''Please set it in your .env file or environment.\<newline>'' @
     ''Example: '' @ envKey @ ''=your-webhook-key-or-token''"

definition missing_extra :: "string \<Rightarrow> string \<Rightarrow> string" where
  "missing_extra extraEnv platform =
     ''Missing environment variable: '' @ extraEnv @ ''\<newline>'' @
     ''This is required for '' @ platform @ '' webhooks.''"

definition getConfig :: "host \<Rightarrow> string \<Rightarrow> error + config" where
  "getConfig h platform =
     (case env_name (get_property ENV_KEYS platform) of
        None \<Rightarrow> Inl (Error (unknown_platform platform))
      | Some envKey \<Rightarrow>
          (case process_env h envKey of
             None \<Rightarrow> Inl (Error (missing_key envKey))
           | Some k \<Rightarrow>
               if k = [] then Inl (Error (missing_key envKey))
               else
                 (case env_name (get_property ENV_EXTRAS platform) of
                    None \<Rightarrow> Inr \<lparr>c_key = k, c_extra = None\<rparr>
                  | Some extraEnv \<Rightarrow>
                      (case process_env h extraEnv of
                         None \<Rightarrow> Inl (Error (missing_extra extraEnv platform))
                       | Some extraValue \<Rightarrow>
                           if extraValue = [] then Inl (Error (missing_extra extraEnv platform))
                           else Inr \<lparr>c_key = k, c_extra = Some extraValue\<rparr>))))"

definition isConfigured :: "host \<Rightarrow> string \<Rightarrow> bool" where
  "isConfigured h platform =
     (case getConfig h platform of Inl e \<Rightarrow> False | Inr c \<Rightarrow> True)"

definition getConfiguredPlatforms :: "host \<Rightarrow> string list" where
  "getConfiguredPlatforms h = filter (isConfigured h) (Object_values PLATFORMS)"

subsection \<open>Webhook URL builders\<close>

text \<open>A builder takes \<^verbatim>\<open>config.key\<close> and \<^verbatim>\<open>config.extra\<close>; only Telegram's reads the
  second.\<close>

definition buildWebhookUrl :: "(string \<times> (string \<Rightarrow> string option \<Rightarrow> string)) list" where
  "buildWebhookUrl =
     [(''wecom'', \<lambda>k chatId. ''https://qyapi.weixin.qq.com/cgi-bin/webhook/send?key='' @ k),
      (''dingtalk'', \<lambda>token chatId. ''https://oapi.dingtalk.com/robot/send?access_token='' @ token),
      (''feishu'', \<lambda>token chatId. ''https://open.feishu.cn/open-apis/bot/v2/hook/'' @ token),
      (''slack'', \<lambda>url chatId. url),
      (''telegram'', \<lambda>token chatId.
         ''https://api.telegram.org/bot'' @ token @ ''/sendMessage?chat_id='' @ interpolate chatId)]"

subsection \<open>Message formatters\<close>

definition formatMessage :: "(string \<times> (string \<Rightarrow> options \<Rightarrow> json)) list" where
  "formatMessage =
     [(''wecom'', \<lambda>content opts.
         JObject [(''msgtype'', JString ''markdown''),
                  (''markdown'', JObject [(''content'', JString content)])]),
      (''dingtalk'', \<lambda>content opts.
         JObject [(''msgtype'', JString ''markdown''),
                  (''markdown'',
                     JObject [(''title'', JString (or_else (o_title opts) ''Notification'')),
                              (''text'', JString content)])]),
      (''feishu'', \<lambda>content opts.
         JObject [(''msg_type'', JString ''interactive''),
                  (''card'',
                     JObject [(''header'',
                                 JObject [(''title'',
                                             JObject [(''tag'', JString ''plain_text''),
                                                      (''content'',
                                                         JString (or_else (o_title opts) ''Notification''))]),
                                          (''template'', JString (or_else (o_color opts) ''blue''))]),
                              (''elements'',
                                 JArray [JObject [(''tag'', JString ''markdown''),
                                                  (''content'', JString content)]])])]),
      (''slack'', \<lambda>content opts.
         JObject [(''blocks'',
                     JArray [JObject [(''type'', JString ''section''),
                                      (''text'', JObject [(''type'', JString ''mrkdwn''),
                                                          (''text'', JString content)])]])]),
      (''telegram'', \<lambda>content opts.
         JObject [(''text'', JString content), (''parse_mode'', JString ''Markdown'')])]"

subsection \<open>Progress status styles\<close>

record style =
  s_color :: "string option"
  s_emoji :: "string option"
  s_wecom :: "string option"

definition STATUS_STYLES :: "(string \<times> style) list" where
  "STATUS_STYLES =
     [(''started'',
         \<lparr>s_color = Some ''blue'',
          s_emoji = Some [CHR 0xF0, CHR 0x9F, CHR 0x9A, CHR 0x80],
          s_wecom = Some ''info''\<rparr>),
      (''in_progress'',
         \<lparr>s_color = Some ''yellow'',
          s_emoji = Some [CHR 0xE2, CHR 0x8F, CHR 0xB3],
          s_wecom = Some ''warning''\<rparr>),
      (''completed'',
         \<lparr>s_color = Some ''green'',
          s_emoji = Some [CHR 0xE2, CHR 0x9C, CHR 0x85],
          s_wecom = Some ''info''\<rparr>),
      (''failed'',
         \<lparr>s_color = Some ''red'',
          s_emoji = Some [CHR 0xE2, CHR 0x9D, CHR 0x8C],
          s_wecom = Some ''warning''\<rparr>),
      (''cancelled'',
         \<lparr>s_color = Some ''grey'',
          s_emoji = Some [CHR 0xE2, CHR 0x8F, CHR 0xB9, CHR 0xEF, CHR 0xB8, CHR 0x8F],
          s_wecom = Some ''comment''\<rparr>)]"

text \<open>
  What \<^verbatim>\<open>.color\<close>, \<^verbatim>\<open>.emoji\<close> and \<^verbatim>\<open>.wecom\<close> read on the result of
  \<^verbatim>\<open>STATUS_STYLES[status]\<close>: the fields of the table's own entry; \<^verbatim>\<open>undefined\<close> three
  times on a member of \<^verbatim>\<open>Object.prototype\<close>, none of which has such a property (that
  is \<open>no_style\<close>); and nothing when the result is \<^verbatim>\<open>undefined\<close>, which is falsy, so that
  \<^verbatim>\<open>||\<close> moves on to its second operand.
\<close>

definition no_style :: style where
  "no_style = \<lparr>s_color = None, s_emoji = None, s_wecom = None\<rparr>"

definition fields_of :: "style property \<Rightarrow> style option" where
  "fields_of p = (case p of Undefined \<Rightarrow> None | Own st \<Rightarrow> Some st | Inherited s \<Rightarrow> Some no_style)"

subsection \<open>HTTP request helper\<close>

text \<open>
  \<open>request h url data\<close> covers \<^verbatim>\<open>new URL(url)\<close>, \<^verbatim>\<open>JSON.stringify(data)\<close>, the request
  options and the exchange itself; the function below is the \<^verbatim>\<open>'end'\<close> handler on
  top of it. \<^verbatim>\<open>resolve\<close> and \<^verbatim>\<open>reject\<close> do not throw, so the \<^verbatim>\<open>catch\<close> branch is
  entered exactly when \<^verbatim>\<open>JSON.parse\<close> throws.
\<close>

definition sendRequest :: "host \<Rightarrow> string \<Rightarrow> json \<Rightarrow> error + json" where
  "sendRequest h url data =
     (case request h url data of
        Failed e \<Rightarrow> Inl e
      | Response statusCode body \<Rightarrow>
          (case JSON_parse h body of
             Some response \<Rightarrow>
               if 200 \<le> statusCode \<and> statusCode < 300 then Inr response
               else Inl (Error (''HTTP '' @ decimal statusCode @ '': '' @ body))
           | None \<Rightarrow>
               if 200 \<le> statusCode \<and> statusCode < 300
               then Inr (JObject [(''raw'', JString body)])
               else Inl (Error (''HTTP '' @ decimal statusCode @ '': '' @ body))))"

subsection \<open>Main push functions\<close>

definition push :: "host \<Rightarrow> string \<Rightarrow> options \<Rightarrow> error + json" where
  "push h content opts =
     (let platform = or_else (o_platform opts) DEFAULT_PLATFORM in
      case getConfig h platform of
        Inl e \<Rightarrow> Inl e
      | Inr config \<Rightarrow>
          (case get_property buildWebhookUrl platform of
             Undefined \<Rightarrow> Inl (HostError ''TypeError: urlBuilder is not a function'')
           | Inherited s \<Rightarrow> inherited_call h platform config content opts
           | Own urlBuilder \<Rightarrow>
               (let url = urlBuilder (c_key config) (c_extra config) in
                case get_property formatMessage platform of
                  Undefined \<Rightarrow> Inl (HostError ''TypeError: formatter is not a function'')
                | Inherited s \<Rightarrow> inherited_call h platform config content opts
                | Own formatter \<Rightarrow> sendRequest h url (formatter content opts))))"

subsection \<open>Platform-specific progress formatters\<close>

text \<open>\<^verbatim>\<open>if (details)\<close> on a string is the test for the empty string.\<close>

definition formatWeComProgress :: "host \<Rightarrow> string \<Rightarrow> string \<Rightarrow> string \<Rightarrow> style \<Rightarrow> string" where
  \<open>formatWeComProgress h taskName status details st =
     (let content = ''**'' @ taskName @ ''** - <font color="'' @ interpolate (s_wecom st) @ ''">'' @
                      toUpperCase h status @ ''</font>'';
          content = (if details \<noteq> [] then content @ ''\<newline>> '' @ details else content);
          content = content @ ''\<newline>> Time: '' @ toISOString h
      in content)\<close>

definition formatDingTalkProgress :: "host \<Rightarrow> string \<Rightarrow> string \<Rightarrow> string \<Rightarrow> style \<Rightarrow> string" where
  \<open>formatDingTalkProgress h taskName status details st =
     (let content = ''### '' @ interpolate (s_emoji st) @ '' '' @ taskName @ ''\<newline>\<newline>'';
          content = content @ ''**Status:** '' @ toUpperCase h status @ ''\<newline>\<newline>'';
          content = (if details \<noteq> [] then content @ ''> '' @ details @ ''\<newline>\<newline>'' else content);
          content = content @ ''---\<newline>*'' @ toISOString h @ ''*''
      in content)\<close>

definition formatFeishuProgress :: "host \<Rightarrow> string \<Rightarrow> string \<Rightarrow> string \<Rightarrow> style \<Rightarrow> string" where
  \<open>formatFeishuProgress h taskName status details st =
     (let content = ''**'' @ taskName @ ''**\<newline>'';
          content = content @ ''Status: '' @ toUpperCase h status @ ''\<newline>'';
          content = (if details \<noteq> [] then content @ ''\<newline>'' @ details @ ''\<newline>'' else content);
          content = content @ ''\<newline>---\<newline>'' @ toISOString h
      in content)\<close>

definition formatSlackProgress :: "host \<Rightarrow> string \<Rightarrow> string \<Rightarrow> string \<Rightarrow> style \<Rightarrow> string" where
  \<open>formatSlackProgress h taskName status details st =
     (let content = interpolate (s_emoji st) @ '' *'' @ taskName @ ''* - `'' @
                      toUpperCase h status @ ''`'';
          content = (if details \<noteq> [] then content @ ''\<newline>> '' @ details else content);
          content = content @ ''\<newline>_'' @ toISOString h @ ''_''
      in content)\<close>

definition formatTelegramProgress :: "host \<Rightarrow> string \<Rightarrow> string \<Rightarrow> string \<Rightarrow> style \<Rightarrow> string" where
  \<open>formatTelegramProgress h taskName status details st =
     (let content = interpolate (s_emoji st) @ '' *'' @ taskName @ ''* - `'' @
                      toUpperCase h status @ ''`'';
          content = (if details \<noteq> [] then content @ ''\<newline>\<newline>'' @ details else content);
          content = content @ ''\<newline>\<newline>_'' @ toISOString h @ ''_''
      in content)\<close>

definition formatGenericProgress :: "host \<Rightarrow> string \<Rightarrow> string \<Rightarrow> string \<Rightarrow> style \<Rightarrow> string" where
  \<open>formatGenericProgress h taskName status details st =
     (let content = interpolate (s_emoji st) @ '' '' @ taskName @ '' - '' @ toUpperCase h status;
          content = (if details \<noteq> [] then content @ ''\<newline>'' @ details else content);
          content = content @ ''\<newline>'' @ toISOString h
      in content)\<close>

subsection \<open>Progress notifications\<close>

text \<open>
  \<^verbatim>\<open>pushProgress\<close> assigns to a property of the \<^verbatim>\<open>options\<close> object it was given, so the
  model returns that object as it is after the call, next to the promise's outcome.
  \<open>progress_style\<close> is the second statement of the function and \<open>progress_content\<close>
  its \<^verbatim>\<open>switch\<close>, which yields the content and the object after the assignment of
  the Feishu case. The object handed to \<^verbatim>\<open>push\<close> is a fresh copy with \<^verbatim>\<open>title\<close> set.
  A caller that leaves \<^verbatim>\<open>details\<close> or \<^verbatim>\<open>options\<close> out gets the defaults \<^verbatim>\<open>''\<close> and
  \<^verbatim>\<open>{}\<close>, here the empty string and the record of three \<^term>\<open>None\<close>.
\<close>

definition progress_style :: "string \<Rightarrow> style" where
  "progress_style status =
     (case fields_of (get_property STATUS_STYLES status) of
        Some st \<Rightarrow> st
      | None \<Rightarrow>
          (case fields_of (get_property STATUS_STYLES ''in_progress'') of
             Some st \<Rightarrow> st
           | None \<Rightarrow> no_style))"

definition progress_content ::
  "host \<Rightarrow> string \<Rightarrow> string \<Rightarrow> string \<Rightarrow> string \<Rightarrow> style \<Rightarrow> options \<Rightarrow> string \<times> options" where
  "progress_content h platform taskName status details st opts =
     (if platform = ''wecom'' then (formatWeComProgress h taskName status details st, opts)
      else if platform = ''dingtalk'' then (formatDingTalkProgress h taskName status details st, opts)
      else if platform = ''feishu'' then
        (formatFeishuProgress h taskName status details st, opts\<lparr>o_color := s_color st\<rparr>)
      else if platform = ''slack'' then (formatSlackProgress h taskName status details st, opts)
      else if platform = ''telegram'' then (formatTelegramProgress h taskName status details st, opts)
      else (formatGenericProgress h taskName status details st, opts))"

definition pushProgress ::
  "host \<Rightarrow> string \<Rightarrow> string \<Rightarrow> string \<Rightarrow> options \<Rightarrow> options \<times> (error + json)" where
  "pushProgress h taskName status details opts =
     (let platform = or_else (o_platform opts) DEFAULT_PLATFORM;
          st = progress_style status;
          (content, opts') = progress_content h platform taskName status details st opts
      in (opts', push h content (opts'\<lparr>o_title := Some (taskName @ '' - '' @ status)\<rparr>)))"

subsection \<open>A sample host\<close>

text \<open>
  A host to evaluate the program on: the environment is given as a list of variables,
  every request ends the way \<open>out\<close> says, upper-casing covers the ASCII letters, the
  clock shows one fixed instant, and the stand-in for \<^verbatim>\<open>JSON.parse\<close> accepts the one
  JSON body the examples use and throws on the text \<^verbatim>\<open>ok\<close> and everything else.
\<close>

definition ascii_upper :: "string \<Rightarrow> string" where
  "ascii_upper s =
     map (\<lambda>c. let n = (of_char c :: nat) in
               if 97 \<le> n \<and> n \<le> 122 then char_of (n - 32) else c) s"

definition sample_parse :: "string \<Rightarrow> json option" where
  \<open>sample_parse body =
     (if body = ''{"error":"not found"}'' then Some (JObject [(''error'', JString ''not found'')])
      else None)\<close>

definition sample_host :: "(string \<times> string) list \<Rightarrow> outcome \<Rightarrow> host" where
  "sample_host vars out =
     \<lparr>process_env = map_of vars,
      toUpperCase = ascii_upper,
      toISOString = ''2024-01-15T10:30:00.000Z'',
      JSON_parse = sample_parse,
      request = (\<lambda>url data. out),
      inherited_call = (\<lambda>platform config content opts. Inl (HostError ''TypeError''))\<rparr>"

definition no_options :: options where
  "no_options = \<lparr>o_platform = None, o_title = None, o_color = None\<rparr>"

section \<open>Properties\<close>

subsection \<open>Auxiliary facts\<close>

lemma sublist_mid: "sublist xs (ps @ xs @ ss)"
  by (rule sublist_appendI)

lemma sublist_end: "sublist xs (ps @ xs)"
  using sublist_appendI [of xs ps "[]"] by simp

lemma decimal_404: "decimal 404 = ''404''"
  by code_simp

subsection \<open>The HTTP request helper\<close>

text \<open>
  C1. Whenever the POST ends with a response whose status code is outside [200,300),
  \<open>sendRequest\<close> rejects with an \<^verbatim>\<open>Error\<close> whose message is \<^verbatim>\<open>HTTP <status>: <body>\<close>: it
  contains the digits of the status code and the raw body text. This holds whatever
  \<^verbatim>\<open>JSON.parse\<close> makes of the body, so also for a body that is valid JSON.
\<close>

theorem sendRequest_non_2xx:
  assumes "request h url data = Response statusCode body"
    and "\<not> (200 \<le> statusCode \<and> statusCode < 300)"
  shows "sendRequest h url data = Inl (Error (''HTTP '' @ decimal statusCode @ '': '' @ body))
    \<and> sublist (decimal statusCode) (''HTTP '' @ decimal statusCode @ '': '' @ body)
    \<and> sublist body (''HTTP '' @ decimal statusCode @ '': '' @ body)"
proof -
  have "sendRequest h url data = Inl (Error (''HTTP '' @ decimal statusCode @ '': '' @ body))"
    using assms by (cases "JSON_parse h body") (simp_all add: sendRequest_def)
  moreover have "sublist (decimal statusCode) (''HTTP '' @ decimal statusCode @ '': '' @ body)"
    by (rule sublist_mid)
  moreover have "sublist body (''HTTP '' @ decimal statusCode @ '': '' @ body)"
    using sublist_end [of body "''HTTP '' @ decimal statusCode @ '': ''"] by simp
  ultimately show ?thesis by simp
qed

text \<open>A 404 whose body is a JSON object that parses: the message carries the body
  as it was received.\<close>

theorem sendRequest_non_2xx_witness:
  \<open>JSON_parse (sample_host [] (Response 404 ''{"error":"not found"}'')) ''{"error":"not found"}''
      = Some (JObject [(''error'', JString ''not found'')])
   \<and> sendRequest (sample_host [] (Response 404 ''{"error":"not found"}''))
        ''https://example.test/hook'' JNull
      = Inl (Error ''HTTP 404: {"error":"not found"}'')\<close>
proof -
  have r: \<open>request (sample_host [] (Response 404 ''{"error":"not found"}''))
             ''https://example.test/hook'' JNull
           = Response 404 ''{"error":"not found"}''\<close>
    by (simp add: sample_host_def)
  have n: "\<not> (200 \<le> (404::nat) \<and> (404::nat) < 300)" by simp
  have p: \<open>JSON_parse (sample_host [] (Response 404 ''{"error":"not found"}''))
             ''{"error":"not found"}''
           = Some (JObject [(''error'', JString ''not found'')])\<close>
    by (simp add: sample_host_def sample_parse_def)
  show ?thesis using sendRequest_non_2xx [OF r n] decimal_404 p by simp
qed

text \<open>
  C8. Whenever the POST ends with a response whose status code is in [200,300) and
  \<^verbatim>\<open>JSON.parse\<close> throws on the body, \<open>sendRequest\<close> resolves, with the object
  \<^verbatim>\<open>{ raw: body }\<close> that carries the raw body text.
\<close>

theorem sendRequest_2xx_unparsable:
  assumes "request h url data = Response statusCode body"
    and "200 \<le> statusCode \<and> statusCode < 300"
    and "JSON_parse h body = None"
  shows "sendRequest h url data = Inr (JObject [(''raw'', JString body)])"
  using assms by (simp add: sendRequest_def)

theorem sendRequest_2xx_unparsable_witness:
  "sendRequest (sample_host [] (Response 200 ''ok'')) ''https://example.test/hook'' JNull
     = Inr (JObject [(''raw'', JString ''ok'')])"
proof -
  have r: "request (sample_host [] (Response 200 ''ok'')) ''https://example.test/hook'' JNull
             = Response 200 ''ok''"
    by (simp add: sample_host_def)
  have n: "200 \<le> (200::nat) \<and> (200::nat) < 300" by simp
  have p: "JSON_parse (sample_host [] (Response 200 ''ok'')) ''ok'' = None"
    by (simp add: sample_host_def sample_parse_def)
  show ?thesis using sendRequest_2xx_unparsable [OF r n p] .
qed

subsection \<open>Configuration validation\<close>

text \<open>The five registered platforms, their variables, and what \<open>ENV_EXTRAS\<close> holds for
  them.\<close>

lemma registered_property:
  assumes "map_of ENV_KEYS p = Some v"
  shows "env_name (get_property ENV_KEYS p) = Some v"
  using assms by (simp add: get_property_def env_name_def)

lemma extras_of_registered:
  "env_name (get_property ENV_EXTRAS ''wecom'') = None"
  "env_name (get_property ENV_EXTRAS ''dingtalk'') = None"
  "env_name (get_property ENV_EXTRAS ''feishu'') = None"
  "env_name (get_property ENV_EXTRAS ''slack'') = None"
  "env_name (get_property ENV_EXTRAS ''telegram'') = Some ''WEBHOOK_TELEGRAM_CHAT_ID''"
  by code_simp+

lemma extras_table:
  "map_of ENV_EXTRAS ''wecom'' = None"
  "map_of ENV_EXTRAS ''dingtalk'' = None"
  "map_of ENV_EXTRAS ''feishu'' = None"
  "map_of ENV_EXTRAS ''slack'' = None"
  "map_of ENV_EXTRAS ''telegram'' = Some ''WEBHOOK_TELEGRAM_CHAT_ID''"
  by (simp_all add: ENV_EXTRAS_def)

lemma registered_names:
  assumes "map_of ENV_KEYS p = Some v"
  shows "p = ''wecom'' \<or> p = ''dingtalk'' \<or> p = ''feishu'' \<or> p = ''slack'' \<or> p = ''telegram''"
proof -
  from assms have "p \<in> fst ` set ENV_KEYS"
    by (metis domI dom_map_of_conv_image_fst)
  then show ?thesis by (simp add: ENV_KEYS_def)
qed

lemma registered_extra:
  assumes "map_of ENV_KEYS p = Some v"
  shows "env_name (get_property ENV_EXTRAS p) = map_of ENV_EXTRAS p"
  using registered_names [OF assms]
  by (elim disjE) (simp_all only: extras_of_registered extras_table)

lemma env_keys_table:
  "map_of ENV_KEYS ''wecom'' = Some ''WEBHOOK_WECOM_KEY''"
  "map_of ENV_KEYS ''telegram'' = Some ''WEBHOOK_TELEGRAM_TOKEN''"
  by (simp_all add: ENV_KEYS_def)

lemma sample_env: "process_env (sample_host vars out) = map_of vars"
  by (simp add: sample_host_def)

lemma names_variable: "sublist v (missing_key v)"
  unfolding missing_key_def by (rule sublist_mid)

lemma gives_hint:
  "sublist (''Please set it in your .env file or environment.\<newline>Example: '' @ v @
     ''=your-webhook-key-or-token'') (missing_key v)"
  using sublist_end [of "''Please set it in your .env file or environment.\<newline>Example: '' @ v @
     ''=your-webhook-key-or-token''" "''Missing environment variable: '' @ v @ ''\<newline>''"]
  by (simp add: missing_key_def)

lemma extra_differs: "missing_extra x p \<noteq> missing_key v"
proof
  assume "missing_extra x p = missing_key v"
  then have "last (missing_extra x p) = last (missing_key v)" by simp
  then show False by (simp add: missing_extra_def missing_key_def)
qed

text \<open>
  C3. The claim: for every identifier outside the five of the registry, \<open>getConfig\<close>
  fails with the \<^verbatim>\<open>Unknown platform\<close> error that lists the five. The test for an unknown
  identifier is \<^verbatim>\<open>!ENV_KEYS[platform]\<close>, and for \<^verbatim>\<open>constructor\<close> (as for each member of
  \<^verbatim>\<open>Object.prototype\<close>) that property read yields an inherited, truthy value. With no
  variable set the call fails with the \<^verbatim>\<open>Missing environment variable\<close> error instead,
  naming the text of the inherited function; with a variable of that name set it even
  returns a configuration.
\<close>

theorem getConfig_constructor:
  "''constructor'' \<notin> set (Object_values PLATFORMS)
   \<and> getConfig (sample_host [] (Response 200 ''ok'')) ''constructor''
     = Inl (Error (''Missing environment variable: function Object() { [native code] }\<newline>'' @
                   ''Please set it in your .env file or environment.\<newline>'' @
                   ''Example: function Object() { [native code] }=your-webhook-key-or-token''))
   \<and> getConfig (sample_host [(''function Object() { [native code] }'', ''anything'')]
                  (Response 200 ''ok'')) ''constructor''
     = Inr \<lparr>c_key = ''anything'', c_extra = Some ''anything''\<rparr>"
  by code_simp

text \<open>For an identifier that is neither registered nor a member of
  \<^verbatim>\<open>Object.prototype\<close> the error is the one for an unknown platform.\<close>

lemma getConfig_unknown_outside_prototype:
  assumes "p \<notin> set (Object_values PLATFORMS)" and "p \<notin> fst ` set Object_prototype"
  shows "getConfig h p =
    Inl (Error (''Unknown platform: '' @ p @
                ''. Supported platforms: wecom, dingtalk, feishu, slack, telegram''))"
proof -
  from assms(1) have "map_of ENV_KEYS p = None"
    by (simp add: Object_values_def PLATFORMS_def ENV_KEYS_def)
  moreover from assms(2) have "map_of Object_prototype p = None"
    by (simp add: map_of_eq_None_iff)
  ultimately have "env_name (get_property ENV_KEYS p) = None"
    by (simp add: get_property_def env_name_def)
  then show ?thesis
    by (simp add: getConfig_def unknown_platform_def Object_values_def PLATFORMS_def)
qed

text \<open>
  C4, as stated: for a registered platform, an unset or empty primary variable makes
  \<open>getConfig\<close> fail with the error that names the variable and says how to set it, and
  a non-empty one makes it return a configuration with that value as \<^verbatim>\<open>key\<close>. The
  second half fails for Telegram, whose chat id is checked after the token: with the
  token set and the chat id unset the call fails.
\<close>

theorem getConfig_primary_counterexample:
  "map_of ENV_KEYS ''telegram'' = Some ''WEBHOOK_TELEGRAM_TOKEN''
   \<and> process_env (sample_host [(''WEBHOOK_TELEGRAM_TOKEN'', ''test-token'')] (Response 200 ''ok''))
       ''WEBHOOK_TELEGRAM_TOKEN'' = Some ''test-token''
   \<and> getConfig (sample_host [(''WEBHOOK_TELEGRAM_TOKEN'', ''test-token'')] (Response 200 ''ok''))
       ''telegram''
     = Inl (Error (''Missing environment variable: WEBHOOK_TELEGRAM_CHAT_ID\<newline>'' @
                   ''This is required for telegram webhooks.''))"
  by code_simp

text \<open>
  C4, amended: for a registered platform \<open>p\<close> with primary variable \<open>v\<close>, an unset or
  empty \<open>v\<close> makes \<open>getConfig\<close> fail with the error that names \<open>v\<close> and carries the hint;
  a non-empty \<open>v\<close> makes it return a configuration whose \<^verbatim>\<open>key\<close> is that value, provided
  the extra variable of \<open>p\<close>, where \<open>ENV_EXTRAS\<close> has one, is non-empty too.
\<close>

theorem getConfig_primary:
  assumes "map_of ENV_KEYS p = Some v"
  shows "(\<not> truthy (process_env h v) \<longrightarrow>
            getConfig h p = Inl (Error (missing_key v))
          \<and> sublist v (missing_key v)
          \<and> sublist (''Please set it in your .env file or environment.\<newline>Example: '' @ v @
               ''=your-webhook-key-or-token'') (missing_key v))
       \<and> (process_env h v = Some k \<and> k \<noteq> [] \<and>
            (\<forall>x. map_of ENV_EXTRAS p = Some x \<longrightarrow> truthy (process_env h x)) \<longrightarrow>
            getConfig h p =
              Inr \<lparr>c_key = k,
                   c_extra = (case map_of ENV_EXTRAS p of None \<Rightarrow> None | Some x \<Rightarrow> process_env h x)\<rparr>)"
proof (intro conjI impI)
  assume "\<not> truthy (process_env h v)"
  then show "getConfig h p = Inl (Error (missing_key v))"
    by (cases "process_env h v") (simp_all add: getConfig_def registered_property [OF assms])
next
  show "sublist v (missing_key v)" by (rule names_variable)
next
  show "sublist (''Please set it in your .env file or environment.\<newline>Example: '' @ v @
               ''=your-webhook-key-or-token'') (missing_key v)" by (rule gives_hint)
next
  assume a: "process_env h v = Some k \<and> k \<noteq> [] \<and>
            (\<forall>x. map_of ENV_EXTRAS p = Some x \<longrightarrow> truthy (process_env h x))"
  show "getConfig h p =
              Inr \<lparr>c_key = k,
                   c_extra = (case map_of ENV_EXTRAS p of None \<Rightarrow> None | Some x \<Rightarrow> process_env h x)\<rparr>"
  proof (cases "map_of ENV_EXTRAS p")
    case None
    with a show ?thesis
      by (simp add: getConfig_def registered_property [OF assms] registered_extra [OF assms])
  next
    case (Some x)
    with a have "truthy (process_env h x)" by simp
    then obtain e where "process_env h x = Some e" "e \<noteq> []"
      by (cases "process_env h x") simp_all
    with a Some show ?thesis
      by (simp add: getConfig_def registered_property [OF assms] registered_extra [OF assms])
  qed
qed

theorem getConfig_primary_witness:
  "getConfig (sample_host [] (Response 200 ''ok'')) ''wecom''
     = Inl (Error (''Missing environment variable: WEBHOOK_WECOM_KEY\<newline>'' @
                   ''Please set it in your .env file or environment.\<newline>'' @
                   ''Example: WEBHOOK_WECOM_KEY=your-webhook-key-or-token''))
   \<and> getConfig (sample_host [(''WEBHOOK_WECOM_KEY'', ''test-key-123'')] (Response 200 ''ok'')) ''wecom''
     = Inr \<lparr>c_key = ''test-key-123'', c_extra = None\<rparr>
   \<and> getConfig (sample_host [(''WEBHOOK_TELEGRAM_TOKEN'', ''test-token''),
                              (''WEBHOOK_TELEGRAM_CHAT_ID'', ''-123456'')] (Response 200 ''ok''))
        ''telegram''
     = Inr \<lparr>c_key = ''test-token'', c_extra = Some ''-123456''\<rparr>"
  using
    getConfig_primary [OF env_keys_table(1), of "sample_host [] (Response 200 ''ok'')" "''x''"]
    getConfig_primary [OF env_keys_table(1),
      of "sample_host [(''WEBHOOK_WECOM_KEY'', ''test-key-123'')] (Response 200 ''ok'')"
         "''test-key-123''"]
    getConfig_primary [OF env_keys_table(2),
      of "sample_host [(''WEBHOOK_TELEGRAM_TOKEN'', ''test-token''),
                       (''WEBHOOK_TELEGRAM_CHAT_ID'', ''-123456'')] (Response 200 ''ok'')"
         "''test-token''"]
  by (simp add: sample_env extras_table missing_key_def)

text \<open>
  C5. For Telegram with the token set: an unset or empty chat id makes \<open>getConfig\<close> fail
  with an error naming \<^verbatim>\<open>WEBHOOK_TELEGRAM_CHAT_ID\<close>, whose message differs from the
  message for a missing primary variable, whatever variable \<open>v\<close> that one names; with
  the chat id set as well the configuration has the token as \<^verbatim>\<open>key\<close> and the chat id as
  \<^verbatim>\<open>extra\<close>.
\<close>

theorem getConfig_telegram:
  assumes "process_env h ''WEBHOOK_TELEGRAM_TOKEN'' = Some token" and "token \<noteq> []"
  shows "(\<not> truthy (process_env h ''WEBHOOK_TELEGRAM_CHAT_ID'') \<longrightarrow>
            getConfig h ''telegram'' =
              Inl (Error (''Missing environment variable: WEBHOOK_TELEGRAM_CHAT_ID\<newline>'' @
                          ''This is required for telegram webhooks.''))
          \<and> sublist ''WEBHOOK_TELEGRAM_CHAT_ID''
               (''Missing environment variable: WEBHOOK_TELEGRAM_CHAT_ID\<newline>'' @
                ''This is required for telegram webhooks.'')
          \<and> ''Missing environment variable: WEBHOOK_TELEGRAM_CHAT_ID\<newline>'' @
              ''This is required for telegram webhooks.'' \<noteq> missing_key v)
       \<and> (process_env h ''WEBHOOK_TELEGRAM_CHAT_ID'' = Some chat \<and> chat \<noteq> [] \<longrightarrow>
            getConfig h ''telegram'' = Inr \<lparr>c_key = token, c_extra = Some chat\<rparr>)"
proof -
  have k: "env_name (get_property ENV_KEYS ''telegram'') = Some ''WEBHOOK_TELEGRAM_TOKEN''"
    by (simp add: get_property_def env_name_def ENV_KEYS_def)
  have x: "env_name (get_property ENV_EXTRAS ''telegram'') = Some ''WEBHOOK_TELEGRAM_CHAT_ID''"
    by (simp add: get_property_def env_name_def ENV_EXTRAS_def)
  have m: "missing_extra ''WEBHOOK_TELEGRAM_CHAT_ID'' ''telegram'' =
       ''Missing environment variable: WEBHOOK_TELEGRAM_CHAT_ID\<newline>'' @
       ''This is required for telegram webhooks.''"
    by (simp add: missing_extra_def)
  have 1: "getConfig h ''telegram'' = Inl (Error (missing_extra ''WEBHOOK_TELEGRAM_CHAT_ID'' ''telegram''))"
    if "\<not> truthy (process_env h ''WEBHOOK_TELEGRAM_CHAT_ID'')"
    using that assms by (cases "process_env h ''WEBHOOK_TELEGRAM_CHAT_ID''") (simp_all add: getConfig_def k x)
  have 2: "sublist ''WEBHOOK_TELEGRAM_CHAT_ID'' (missing_extra ''WEBHOOK_TELEGRAM_CHAT_ID'' ''telegram'')"
    unfolding missing_extra_def by (rule sublist_mid)
  have 3: "missing_extra ''WEBHOOK_TELEGRAM_CHAT_ID'' ''telegram'' \<noteq> missing_key v"
    by (rule extra_differs)
  have 4: "getConfig h ''telegram'' = Inr \<lparr>c_key = token, c_extra = Some chat\<rparr>"
    if "process_env h ''WEBHOOK_TELEGRAM_CHAT_ID'' = Some chat \<and> chat \<noteq> []"
    using that assms by (simp add: getConfig_def k x)
  from 1 2 3 4 show ?thesis unfolding m by blast
qed

theorem getConfig_telegram_witness:
  "getConfig (sample_host [(''WEBHOOK_TELEGRAM_TOKEN'', ''test-token'')] (Response 200 ''ok''))
        ''telegram''
     = Inl (Error (''Missing environment variable: WEBHOOK_TELEGRAM_CHAT_ID\<newline>'' @
                   ''This is required for telegram webhooks.''))
   \<and> getConfig (sample_host [(''WEBHOOK_TELEGRAM_TOKEN'', ''test-token''),
                              (''WEBHOOK_TELEGRAM_CHAT_ID'', ''-123456'')] (Response 200 ''ok''))
        ''telegram''
     = Inr \<lparr>c_key = ''test-token'', c_extra = Some ''-123456''\<rparr>"
  using
    getConfig_telegram [of "sample_host [(''WEBHOOK_TELEGRAM_TOKEN'', ''test-token'')] (Response 200 ''ok'')"
      "''test-token''" "''x''" "''y''"]
    getConfig_telegram [of "sample_host [(''WEBHOOK_TELEGRAM_TOKEN'', ''test-token''),
                              (''WEBHOOK_TELEGRAM_CHAT_ID'', ''-123456'')] (Response 200 ''ok'')"
      "''test-token''" "''x''" "''-123456''"]
  by (simp add: sample_env)

text \<open>
  C7. \<open>isConfigured\<close> is true exactly when \<open>getConfig\<close> returns a configuration and false
  exactly when it throws (as a function to \<^typ>\<open>bool\<close> it has no failure of its own), and
  \<open>getConfiguredPlatforms\<close> is the list of the five identifiers, in the order of
  \<open>PLATFORMS\<close>, filtered by \<open>isConfigured\<close>.
\<close>

theorem isConfigured_getConfig:
  "(isConfigured h p \<longleftrightarrow> (\<exists>c. getConfig h p = Inr c))
   \<and> (\<not> isConfigured h p \<longleftrightarrow> (\<exists>e. getConfig h p = Inl e))
   \<and> getConfiguredPlatforms h =
       filter (isConfigured h) [''wecom'', ''dingtalk'', ''feishu'', ''slack'', ''telegram'']"
  by (cases "getConfig h p")
     (simp_all add: isConfigured_def getConfiguredPlatforms_def Object_values_def PLATFORMS_def)

theorem isConfigured_getConfig_witness:
  "isConfigured (sample_host [(''WEBHOOK_SLACK_URL'', ''https://hooks.slack.com/test''),
                              (''WEBHOOK_WECOM_KEY'', ''test'')] (Response 200 ''ok'')) ''wecom''
   \<and> \<not> isConfigured (sample_host [(''WEBHOOK_SLACK_URL'', ''https://hooks.slack.com/test''),
                              (''WEBHOOK_WECOM_KEY'', ''test'')] (Response 200 ''ok'')) ''telegram''
   \<and> getConfiguredPlatforms (sample_host [(''WEBHOOK_SLACK_URL'', ''https://hooks.slack.com/test''),
                              (''WEBHOOK_WECOM_KEY'', ''test'')] (Response 200 ''ok''))
      = [''wecom'', ''slack'']"
proof -
  let ?h = "sample_host [(''WEBHOOK_SLACK_URL'', ''https://hooks.slack.com/test''),
                              (''WEBHOOK_WECOM_KEY'', ''test'')] (Response 200 ''ok'')"
  have w: "getConfig ?h ''wecom'' = Inr \<lparr>c_key = ''test'', c_extra = None\<rparr>" by code_simp
  have d: "getConfig ?h ''dingtalk'' = Inl (Error (missing_key ''WEBHOOK_DINGTALK_TOKEN''))" by code_simp
  have f: "getConfig ?h ''feishu'' = Inl (Error (missing_key ''WEBHOOK_FEISHU_TOKEN''))" by code_simp
  have s: "getConfig ?h ''slack'' = Inr \<lparr>c_key = ''https://hooks.slack.com/test'', c_extra = None\<rparr>"
    by code_simp
  have t: "getConfig ?h ''telegram'' = Inl (Error (missing_key ''WEBHOOK_TELEGRAM_TOKEN''))" by code_simp
  show ?thesis
    using isConfigured_getConfig [of ?h "''wecom''"] isConfigured_getConfig [of ?h "''dingtalk''"]
      isConfigured_getConfig [of ?h "''feishu''"] isConfigured_getConfig [of ?h "''slack''"]
      isConfigured_getConfig [of ?h "''telegram''"]
    by (simp add: w d f s t)
qed

subsection \<open>Progress templates\<close>

text \<open>
  C2, as stated: when \<^verbatim>\<open>details\<close> is empty or only whitespace, the output of a progress
  template has no details block. The templates test \<^verbatim>\<open>if (details)\<close>, which is false
  for the empty string only: a single space is rendered as a block of its own, here the
  line \<^verbatim>\<open>">  "\<close> of the WeCom template, which the output for the empty string lacks.
\<close>

theorem progress_blank_details_counterexample:
  \<open>formatWeComProgress (sample_host [] (Response 200 ''ok'')) ''Build'' ''completed'' '' ''
       (progress_style ''completed'')
     = ''**Build** - <font color="info">COMPLETED</font>\<newline>>  \<newline>> Time: 2024-01-15T10:30:00.000Z''
   \<and> formatWeComProgress (sample_host [] (Response 200 ''ok'')) ''Build'' ''completed'' ''''
       (progress_style ''completed'')
     = ''**Build** - <font color="info">COMPLETED</font>\<newline>> Time: 2024-01-15T10:30:00.000Z''\<close>
  by code_simp

text \<open>
  C2, amended: when \<^verbatim>\<open>details\<close> is the empty string, the output of each of the six
  templates is the heading immediately followed by the time stamp part, for every task
  name, status and style: nothing is rendered for the details.
\<close>

theorem progress_empty_details:
  \<open>formatWeComProgress h taskName status [] st =
       ''**'' @ taskName @ ''** - <font color="'' @ interpolate (s_wecom st) @ ''">'' @
       toUpperCase h status @ ''</font>\<newline>> Time: '' @ toISOString h
   \<and> formatDingTalkProgress h taskName status [] st =
       ''### '' @ interpolate (s_emoji st) @ '' '' @ taskName @ ''\<newline>\<newline>**Status:** '' @
       toUpperCase h status @ ''\<newline>\<newline>---\<newline>*'' @ toISOString h @ ''*''
   \<and> formatFeishuProgress h taskName status [] st =
       ''**'' @ taskName @ ''**\<newline>Status: '' @ toUpperCase h status @ ''\<newline>\<newline>---\<newline>'' @
       toISOString h
   \<and> formatSlackProgress h taskName status [] st =
       interpolate (s_emoji st) @ '' *'' @ taskName @ ''* - `'' @ toUpperCase h status @
       ''`\<newline>_'' @ toISOString h @ ''_''
   \<and> formatTelegramProgress h taskName status [] st =
       interpolate (s_emoji st) @ '' *'' @ taskName @ ''* - `'' @ toUpperCase h status @
       ''`\<newline>\<newline>_'' @ toISOString h @ ''_''
   \<and> formatGenericProgress h taskName status [] st =
       interpolate (s_emoji st) @ '' '' @ taskName @ '' - '' @ toUpperCase h status @
       ''\<newline>'' @ toISOString h\<close>
  by (simp add: formatWeComProgress_def formatDingTalkProgress_def formatFeishuProgress_def
      formatSlackProgress_def formatTelegramProgress_def formatGenericProgress_def)

text \<open>
  C6. The claim: for every status outside the five of the style table the progress
  message is formatted with the style of \<^verbatim>\<open>in_progress\<close>. The style is
  \<^verbatim>\<open>STATUS_STYLES[status] || STATUS_STYLES.in_progress\<close>, and for the status
  \<^verbatim>\<open>constructor\<close> (as for each member of \<^verbatim>\<open>Object.prototype\<close>) the first operand is an
  inherited, truthy value with no \<^verbatim>\<open>color\<close>, \<^verbatim>\<open>emoji\<close> or \<^verbatim>\<open>wecom\<close>: the templates
  then print \<^verbatim>\<open>undefined\<close> where the accent or the emoji belongs, while a status such
  as \<^verbatim>\<open>no-such-status\<close> does get the style of \<^verbatim>\<open>in_progress\<close>.
\<close>

theorem progress_style_constructor:
  \<open>''constructor'' \<notin> set [''started'', ''in_progress'', ''completed'', ''failed'', ''cancelled'']
   \<and> progress_style ''constructor'' = \<lparr>s_color = None, s_emoji = None, s_wecom = None\<rparr>
   \<and> progress_style ''no-such-status''
       = \<lparr>s_color = Some ''yellow'', s_emoji = Some [CHR 0xE2, CHR 0x8F, CHR 0xB3],
          s_wecom = Some ''warning''\<rparr>
   \<and> fst (progress_content (sample_host [] (Response 200 ''ok'')) ''wecom'' ''Build''
            ''constructor'' [] (progress_style ''constructor'') no_options)
       = ''**Build** - <font color="undefined">CONSTRUCTOR</font>\<newline>> Time: 2024-01-15T10:30:00.000Z''
   \<and> fst (progress_content (sample_host [] (Response 200 ''ok'')) ''slack'' ''Build''
            ''constructor'' [] (progress_style ''constructor'') no_options)
       = ''undefined *Build* - `CONSTRUCTOR`\<newline>_2024-01-15T10:30:00.000Z_''\<close>
  by code_simp

text \<open>For a status that is neither in the table nor a member of \<^verbatim>\<open>Object.prototype\<close>
  the style is that of \<^verbatim>\<open>in_progress\<close>.\<close>

lemma progress_style_fallback_outside_prototype:
  assumes "status \<notin> set [''started'', ''in_progress'', ''completed'', ''failed'', ''cancelled'']"
    and "status \<notin> fst ` set Object_prototype"
  shows "progress_style status
       = \<lparr>s_color = Some ''yellow'', s_emoji = Some [CHR 0xE2, CHR 0x8F, CHR 0xB3],
          s_wecom = Some ''warning''\<rparr>"
proof -
  from assms(1) have "map_of STATUS_STYLES status = None"
    by (simp add: STATUS_STYLES_def)
  moreover from assms(2) have "map_of Object_prototype status = None"
    by (simp add: map_of_eq_None_iff)
  ultimately have "fields_of (get_property STATUS_STYLES status) = None"
    by (simp add: get_property_def fields_of_def)
  moreover have "fields_of (get_property STATUS_STYLES ''in_progress'')
      = Some \<lparr>s_color = Some ''yellow'', s_emoji = Some [CHR 0xE2, CHR 0x8F, CHR 0xB3],
          s_wecom = Some ''warning''\<rparr>"
    by code_simp
  ultimately show ?thesis by (simp add: progress_style_def)
qed

subsection \<open>Progress notifications\<close>

lemma progress_content_title:
  "progress_content h p t s d st (opts\<lparr>o_title := x\<rparr>)
     = (fst (progress_content h p t s d st opts),
        (snd (progress_content h p t s d st opts))\<lparr>o_title := x\<rparr>)"
  by (simp add: progress_content_def)

lemma feishu_selected:
  "(or_else (o_platform opts) DEFAULT_PLATFORM = ''feishu'') = (o_platform opts = Some ''feishu'')"
  by (cases "o_platform opts") (auto simp: or_else_def DEFAULT_PLATFORM_def)

text \<open>
  C9. The outcome of \<open>pushProgress\<close> is the outcome of \<open>push\<close> on the formatted content
  and on the options with \<^verbatim>\<open>title\<close> set to \<^verbatim>\<open><taskName> - <status>\<close>; a title the caller
  put into the options makes no difference to it.
\<close>

theorem pushProgress_title:
  "snd (pushProgress h taskName status details opts)
     = push h
         (fst (progress_content h (or_else (o_platform opts) DEFAULT_PLATFORM) taskName status
                 details (progress_style status) opts))
         ((snd (progress_content h (or_else (o_platform opts) DEFAULT_PLATFORM) taskName status
                  details (progress_style status) opts))
            \<lparr>o_title := Some (taskName @ '' - '' @ status)\<rparr>)
   \<and> snd (pushProgress h taskName status details (opts\<lparr>o_title := t\<rparr>))
     = snd (pushProgress h taskName status details opts)"
  by (simp add: pushProgress_def Let_def split_beta progress_content_title)

text \<open>A DingTalk notification whose caller supplies a title of its own.\<close>

theorem pushProgress_title_witness:
  "snd (pushProgress (sample_host [] (Response 200 ''ok'')) ''Build'' ''completed'' ''done''
          \<lparr>o_platform = Some ''dingtalk'', o_title = Some ''My title'', o_color = None\<rparr>)
     = push (sample_host [] (Response 200 ''ok''))
         (''### '' @ [CHR 0xE2, CHR 0x9C, CHR 0x85] @ '' Build\<newline>\<newline>**Status:** COMPLETED\<newline>\<newline>'' @
          ''> done\<newline>\<newline>---\<newline>*2024-01-15T10:30:00.000Z*'')
         \<lparr>o_platform = Some ''dingtalk'', o_title = Some ''Build - completed'', o_color = None\<rparr>"
proof -
  have "progress_content (sample_host [] (Response 200 ''ok''))
          (or_else (Some ''dingtalk'') DEFAULT_PLATFORM) ''Build'' ''completed'' ''done''
          (progress_style ''completed'')
          \<lparr>o_platform = Some ''dingtalk'', o_title = Some ''My title'', o_color = None\<rparr>
        = (''### '' @ [CHR 0xE2, CHR 0x9C, CHR 0x85] @ '' Build\<newline>\<newline>**Status:** COMPLETED\<newline>\<newline>'' @
           ''> done\<newline>\<newline>---\<newline>*2024-01-15T10:30:00.000Z*'',
           \<lparr>o_platform = Some ''dingtalk'', o_title = Some ''My title'', o_color = None\<rparr>)"
    by code_simp
  then show ?thesis
    using pushProgress_title [of "sample_host [] (Response 200 ''ok'')" "''Build''" "''completed''"
        "''done''" "\<lparr>o_platform = Some ''dingtalk'', o_title = Some ''My title'', o_color = None\<rparr>"
        "Some ''My title''"]
    by simp
qed

text \<open>
  C10. The options object after \<open>pushProgress\<close>: for the platform \<^verbatim>\<open>feishu\<close> it is the
  caller's object with \<^verbatim>\<open>color\<close> overwritten by the color of the status style, for
  every other platform it is the caller's object unchanged.
\<close>

theorem pushProgress_color:
  "fst (pushProgress h taskName status details opts)
     = (if o_platform opts = Some ''feishu'' then opts\<lparr>o_color := s_color (progress_style status)\<rparr>
        else opts)"
proof (cases "o_platform opts = Some ''feishu''")
  case True
  then have "or_else (o_platform opts) DEFAULT_PLATFORM = ''feishu''"
    by (simp add: or_else_def)
  with True show ?thesis
    by (simp add: pushProgress_def Let_def split_beta progress_content_def)
next
  case False
  then have "or_else (o_platform opts) DEFAULT_PLATFORM \<noteq> ''feishu''"
    by (simp add: feishu_selected)
  with False show ?thesis
    by (simp add: pushProgress_def Let_def split_beta progress_content_def)
qed

theorem pushProgress_color_witness:
  "fst (pushProgress (sample_host [] (Response 200 ''ok'')) ''Build'' ''completed'' ''done''
          \<lparr>o_platform = Some ''feishu'', o_title = None, o_color = Some ''red''\<rparr>)
     = \<lparr>o_platform = Some ''feishu'', o_title = None, o_color = Some ''green''\<rparr>
   \<and> fst (pushProgress (sample_host [] (Response 200 ''ok'')) ''Build'' ''completed'' ''done''
          \<lparr>o_platform = Some ''slack'', o_title = None, o_color = Some ''red''\<rparr>)
     = \<lparr>o_platform = Some ''slack'', o_title = None, o_color = Some ''red''\<rparr>"
proof -
  have "s_color (progress_style ''completed'') = Some ''green''" by code_simp
  then show ?thesis
    using pushProgress_color [of "sample_host [] (Response 200 ''ok'')" "''Build''" "''completed''"
        "''done''" "\<lparr>o_platform = Some ''feishu'', o_title = None, o_color = Some ''red''\<rparr>"]
      pushProgress_color [of "sample_host [] (Response 200 ''ok'')" "''Build''" "''completed''"
        "''done''" "\<lparr>o_platform = Some ''slack'', o_title = None, o_color = Some ''red''\<rparr>"]
    by simp
qed

end
